theory Spec2Isabelle
  imports Main "HOL-Library.Sublist"
begin

unbundle bit_operations_syntax

section \<open>Constants and macros taken from the system headers\<close>

text \<open>
  \<^verbatim>\<open>pwait.c\<close> is compiled against the Linux headers. The values below are the ones of
  \<^verbatim>\<open><signal.h>\<close>, \<^verbatim>\<open><sys/ptrace.h>\<close> and \<^verbatim>\<open><sys/wait.h>\<close> on Linux; \<^verbatim>\<open>int\<close> and
  \<^verbatim>\<open>pid_t\<close> are 32 bits wide, \<^verbatim>\<open>long\<close> and \<^verbatim>\<open>unsigned long\<close> are 64 bits wide (LP64).
  Machine integers are mathematical integers here, with the conversions written out.
\<close>

definition TRUE :: int where "TRUE = 1"
definition FALSE :: int where "FALSE = 0"

definition SIGTRAP :: int where "SIGTRAP = 5"
definition PTRACE_EVENT_EXIT :: int where "PTRACE_EVENT_EXIT = 6"
definition CLD_TRAPPED :: int where "CLD_TRAPPED = 4"

text \<open>\<^verbatim>\<open>#define PTRACE_EXIT_SIGINFO_STATUS (SIGTRAP | (PTRACE_EVENT_EXIT << 8))\<close>\<close>

definition PTRACE_EXIT_SIGINFO_STATUS :: int where
  "PTRACE_EXIT_SIGINFO_STATUS = SIGTRAP OR push_bit 8 PTRACE_EVENT_EXIT"

text \<open>\<^verbatim>\<open>WIFSTOPPED(status)\<close> is \<^verbatim>\<open>(((status) & 0xff) == 0x7f)\<close>.\<close>

definition WIFSTOPPED :: "int \<Rightarrow> bool" where
  "WIFSTOPPED status = (status AND 0xff = 0x7f)"

text \<open>Conversion of an integer value to a 32-bit \<^verbatim>\<open>int\<close> (two's complement wrap-around).\<close>

definition to_int32 :: "int \<Rightarrow> int" where
  "to_int32 x = (let m = x mod 2 ^ 32 in if m < 2 ^ 31 then m else m - 2 ^ 32)"

text \<open>
  \<^verbatim>\<open>W_EXITCODE(ret, sig)\<close> of \<^verbatim>\<open><sys/wait.h>\<close> is \<^verbatim>\<open>((ret) << 8 | (sig))\<close>: the wait status of
  a process that has called \<^verbatim>\<open>exit(ret)\<close> is \<^verbatim>\<open>W_EXITCODE(ret, 0)\<close>. At the exit event of a
  traced process this status is the event message that \<^verbatim>\<open>PTRACE_GETEVENTMSG\<close> yields.
\<close>

definition W_EXITCODE :: "nat \<Rightarrow> nat \<Rightarrow> nat" where
  "W_EXITCODE ret sig = push_bit 8 ret OR sig"

definition LONG_MAX :: int where "LONG_MAX = 2 ^ 63 - 1"
definition LONG_MIN :: int where "LONG_MIN = - (2 ^ 63)"

section \<open>The C library: \<^verbatim>\<open>printf\<close> conversions and \<^verbatim>\<open>strtol\<close>\<close>

definition digit_char :: "nat \<Rightarrow> char" where
  "digit_char d = ''0123456789abcdef'' ! d"

fun show_nat :: "nat \<Rightarrow> nat \<Rightarrow> string" where
  "show_nat b n =
     (if b < 2 \<or> n < b then [digit_char n] else show_nat b (n div b) @ [digit_char (n mod b)])"

text \<open>The conversion \<^verbatim>\<open>%d\<close> of an \<^verbatim>\<open>int\<close>.\<close>

definition show_d :: "int \<Rightarrow> string" where
  "show_d i = (if i < 0 then CHR ''-'' # show_nat 10 (nat (- i)) else show_nat 10 (nat i))"

text \<open>The conversion \<^verbatim>\<open>%x\<close>: the \<^verbatim>\<open>int\<close> argument is read as \<^verbatim>\<open>unsigned int\<close>.\<close>

definition show_x :: "int \<Rightarrow> string" where
  "show_x i = show_nat 16 (nat (i mod 2 ^ 32))"

text \<open>
  \<^verbatim>\<open>strtol(nptr, &endptr, 0)\<close> as ISO C and the manual page describe it: white space is
  skipped, an optional sign is read, the base is 16 after a \<^verbatim>\<open>0x\<close> prefix, 8 after a leading
  \<^verbatim>\<open>0\<close> and 10 otherwise, the longest run of digits of that base is converted, and the value
  is clamped to the range of \<^verbatim>\<open>long\<close>. The result is the value together with the number of
  characters consumed, \<^verbatim>\<open>endptr - nptr\<close>; no conversion leaves \<^verbatim>\<open>endptr == nptr\<close> and yields 0.
\<close>

definition isspace :: "char \<Rightarrow> bool" where
  "isspace c = (c \<in> set [CHR '' '', CHR 0x09, CHR 0x0A, CHR 0x0B, CHR 0x0C, CHR 0x0D])"

definition digit_value :: "char \<Rightarrow> nat option" where
  "digit_value c =
     (let n = (of_char c :: nat) in
      if 48 \<le> n \<and> n \<le> 57 then Some (n - 48)
      else if 97 \<le> n \<and> n \<le> 122 then Some (n - 87)
      else if 65 \<le> n \<and> n \<le> 90 then Some (n - 55)
      else None)"

fun scan_digits :: "nat \<Rightarrow> string \<Rightarrow> nat \<Rightarrow> nat \<Rightarrow> nat \<times> nat" where
  "scan_digits b [] acc n = (acc, n)"
| "scan_digits b (c # cs) acc n =
     (case digit_value c of
        None \<Rightarrow> (acc, n)
      | Some d \<Rightarrow> if d < b then scan_digits b cs (acc * b + d) (Suc n) else (acc, n))"

definition is_digit_of :: "nat \<Rightarrow> char \<Rightarrow> bool" where
  "is_digit_of b c = (case digit_value c of None \<Rightarrow> False | Some d \<Rightarrow> d < b)"

fun strtol_sign :: "string \<Rightarrow> bool \<times> nat \<times> string" where
  "strtol_sign [] = (False, 0, [])"
| "strtol_sign (c # cs) =
     (if c = CHR ''-'' then (True, 1, cs)
      else if c = CHR ''+'' then (False, 1, cs)
      else (False, 0, c # cs))"

fun strtol_base :: "string \<Rightarrow> nat \<times> nat \<times> string" where
  "strtol_base (z # x # h # cs) =
     (if z = CHR ''0'' \<and> (x = CHR ''x'' \<or> x = CHR ''X'') \<and> is_digit_of 16 h then (16, 2, h # cs)
      else if z = CHR ''0'' then (8, 0, z # x # h # cs)
      else (10, 0, z # x # h # cs))"
| "strtol_base (z # cs) = (if z = CHR ''0'' then (8, 0, z # cs) else (10, 0, z # cs))"
| "strtol_base [] = (10, 0, [])"

definition strtol :: "string \<Rightarrow> int \<times> nat" where
  "strtol nptr =
     (let skipped = length (takeWhile isspace nptr);
          (neg, sign_len, r) = strtol_sign (dropWhile isspace nptr);
          (base, prefix_len, digits) = strtol_base r;
          (mag, n) = scan_digits base digits 0 0;
          v = (if neg then - int mag else int mag)
      in if n = 0 then (0, 0)
         else (max LONG_MIN (min LONG_MAX v), skipped + sign_len + prefix_len + n))"

section \<open>The process state and the operating system\<close>

datatype signal = SIGINT | SIGTERM

text \<open>
  The actions of a termination signal that occur: the two dispositions a process can
  inherit, and the function \<^verbatim>\<open>detach\<close> of this program as handler, installed with or
  without the flags \<^verbatim>\<open>SA_RESTART\<close> and \<^verbatim>\<open>SA_RESETHAND\<close>.
\<close>

datatype handler = SIG_DFL | SIG_IGN | Handler_detach (sa_restart: bool) (sa_resethand: bool)

datatype cap_flag = CAP_EFFECTIVE | CAP_PERMITTED

datatype cap_flag_value = CAP_CLEAR | CAP_SET

text \<open>The calls into libcap and the kernel that the program issues, in the order issued.\<close>

datatype call =
    Cap_is_supported
  | Cap_get_proc
  | Cap_get_flag cap_flag
  | Cap_set_flag
  | Cap_set_proc
  | Cap_free
  | Sigaction signal handler
  | Ptrace_seize int
  | Ptrace_attach int
  | Ptrace_geteventmsg int
  | Ptrace_detach int
  | Waitpid int
  | Waitid int

text \<open>
  The state of the running program: the global \<^verbatim>\<open>pid\<close>, the installed handlers of the two
  termination signals, the lines written to the two streams, and the calls made so far.
\<close>

record state =
  pid :: int
  sigterm_handler :: handler
  sigint_handler :: handler
  stdout :: "string list"
  stderr :: "string list"
  calls :: "call list"

text \<open>How a function of the program ends: it returns, it blocks for ever, or the process is killed.\<close>

datatype 'a res = Returns 'a | Blocked | Killed signal

text \<open>
  What a blocking wait call meets: a result of the call, or a termination signal delivered
  while the call is blocked.
\<close>

datatype 'r outcome = Returned 'r | Interrupted signal

text \<open>What \<^verbatim>\<open>waitid\<close> yields: its return value, the \<^verbatim>\<open>si_pid\<close> it wrote (if it wrote one),
  \<^verbatim>\<open>si_code\<close> and \<^verbatim>\<open>si_status\<close>.\<close>

record waitid_result =
  waitid_ret :: int
  si_pid_written :: "int option"
  si_code :: int
  si_status :: int

text \<open>
  The answers of libcap and the kernel to the calls of one run. Each \<^verbatim>\<open>cap_get_flag\<close> answer
  is the return value and the flag value written; \<open>wait_results\<close> is what the successive
  \<^verbatim>\<open>waitpid\<close> calls meet (when it is used up, the next call blocks for ever).

  \<^verbatim>\<open>main\<close> assigns only \<^verbatim>\<open>sa_handler\<close> of its local \<^verbatim>\<open>struct sigaction siga\<close>; \<^verbatim>\<open>sa_flags\<close>
  and \<^verbatim>\<open>sa_mask\<close> keep what the stack holds. Whether that \<^verbatim>\<open>sa_flags\<close> has the bits
  \<^verbatim>\<open>SA_RESTART\<close> and \<^verbatim>\<open>SA_RESETHAND\<close> is therefore an input of the run, given by
  \<open>siga_sa_restart\<close> and \<open>siga_sa_resethand\<close>.
\<close>

record os =
  inherited_sigterm :: handler
  inherited_sigint :: handler
  siga_sa_restart :: bool
  siga_sa_resethand :: bool
  cap_is_supported :: bool
  cap_get_proc_ok :: bool
  cap_get_flag_effective :: "int \<times> cap_flag_value"
  cap_get_flag_permitted :: "int \<times> cap_flag_value"
  cap_set_flag_ret :: int
  cap_set_proc_ret :: int
  cap_get_flag_recheck :: "int \<times> cap_flag_value"
  cap_free_ret :: int
  ptrace_attach_ret :: int
  wait_results :: "(int \<times> int) outcome list"
  geteventmsg_ret :: int
  eventmsg :: nat

text \<open>What the preprocessor sees: whether the two macros tested with \<^verbatim>\<open>#ifdef\<close> are defined.\<close>

record build =
  cap_sys_ptrace_defined :: bool
  ptrace_seize_defined :: bool

definition initial :: "os \<Rightarrow> state" where
  "initial e = \<lparr>pid = 0, sigterm_handler = inherited_sigterm e,
     sigint_handler = inherited_sigint e, stdout = [], stderr = [], calls = []\<rparr>"

definition sys :: "call \<Rightarrow> state \<Rightarrow> state" where
  "sys c s = s\<lparr>calls := calls s @ [c]\<rparr>"

definition handler_of :: "signal \<Rightarrow> state \<Rightarrow> handler" where
  "handler_of sg s = (case sg of SIGTERM \<Rightarrow> sigterm_handler s | SIGINT \<Rightarrow> sigint_handler s)"

definition set_handler :: "signal \<Rightarrow> handler \<Rightarrow> state \<Rightarrow> state" where
  "set_handler sg h s =
     (case sg of SIGTERM \<Rightarrow> s\<lparr>sigterm_handler := h\<rparr> | SIGINT \<Rightarrow> s\<lparr>sigint_handler := h\<rparr>)"

text \<open>\<^verbatim>\<open>sigaction(sg, &new, &old)\<close>: installs the handler and yields the previous one.\<close>

definition sigaction :: "signal \<Rightarrow> handler \<Rightarrow> state \<Rightarrow> handler \<times> state" where
  "sigaction sg h s = (handler_of sg s, sys (Sigaction sg h) (set_handler sg h s))"

section \<open>The functions of \<^verbatim>\<open>pwait.c\<close>\<close>

text \<open>
  \<^verbatim>\<open>dprint\<close> writes one line to the error stream. Its buffer holds 1024 bytes; every message
  of this program is shorter.
\<close>

definition dprint :: "string \<Rightarrow> state \<Rightarrow> state" where
  "dprint message s = s\<lparr>stderr := stderr s @ [message]\<rparr>"

definition usage :: "string \<Rightarrow> state \<Rightarrow> state" where
  "usage name s = s\<lparr>stderr := stderr s @ [''Usage: '' @ name @ '' pid'']\<rparr>"

definition cap_free_safe :: "os \<Rightarrow> state \<Rightarrow> int \<times> state" where
  "cap_free_safe e s =
     (let s1 = sys Cap_free s
      in if cap_free_ret e = - 1 then (- 1, dprint ''freeing capability struct failed'' s1)
         else (cap_free_ret e, s1))"

definition prepare_capabilities :: "build \<Rightarrow> os \<Rightarrow> state \<Rightarrow> int \<times> state" where
  "prepare_capabilities b e s =
     (if \<not> cap_sys_ptrace_defined b then (FALSE, dprint ''ptrace capability is not defined'' s)
      else let s = sys Cap_is_supported s in
      if \<not> cap_is_supported e then (FALSE, dprint ''ptrace capability is not supported'' s)
      else let s = sys Cap_get_proc s in
      if \<not> cap_get_proc_ok e
      then (FALSE, dprint ''getting capabilities of this process failed'' s)
      else let s = sys (Cap_get_flag CAP_EFFECTIVE) s in
      if fst (cap_get_flag_effective e) = - 1
      then (FALSE, snd (cap_free_safe e (dprint ''checking effective capabilities failed'' s)))
      else if snd (cap_get_flag_effective e) = CAP_SET
      then (TRUE, dprint ''process has CAP_SYS_PTRACE'' s)
      else let s = dprint ''process does not have CAP_SYS_PTRACE'' s;
               s = sys (Cap_get_flag CAP_PERMITTED) s in
      if fst (cap_get_flag_permitted e) = - 1
      then (FALSE, snd (cap_free_safe e (dprint ''checking permitted capabilities failed'' s)))
      else if snd (cap_get_flag_permitted e) \<noteq> CAP_SET
      then (FALSE, dprint ''process is not permitted to acquire CAP_SYS_PTRACE'' s)
      else let s = dprint ''process is permitted to acquire CAP_SYS_PTRACE'' s;
               s = sys Cap_set_flag s in
      if cap_set_flag_ret e = - 1
      then (FALSE, snd (cap_free_safe e (dprint ''modifying capability structure failed'' s)))
      else let s = sys Cap_set_proc s in
      if cap_set_proc_ret e = - 1
      then (FALSE, snd (cap_free_safe e (dprint ''setting capability failed'' s)))
      else let s = sys (Cap_get_flag CAP_EFFECTIVE) s in
      if fst (cap_get_flag_recheck e) = - 1
      then (FALSE, snd (cap_free_safe e (dprint ''checking effective capabilities failed'' s)))
      else let s = (if snd (cap_get_flag_recheck e) = CAP_SET
                    then dprint ''process has CAP_SYS_PTRACE'' s
                    else dprint ''process does not have CAP_SYS_PTRACE'' s) in
      case cap_free_safe e s of (status, s) \<Rightarrow>
      if status = - 1 then (FALSE, s)
      else (if snd (cap_get_flag_recheck e) = CAP_SET then 1 else 0, s))"

text \<open>The signal handler: \<^verbatim>\<open>ptrace(PTRACE_DETACH, pid, 0, 0)\<close>, the result ignored.\<close>

definition detach :: "signal \<Rightarrow> state \<Rightarrow> state" where
  "detach sg s = sys (Ptrace_detach (pid s)) s"

text \<open>
  A blocked wait call. A result of the call is returned. A signal delivered meanwhile
  is handled by its action: the default one kills the process and an ignored signal leaves
  the call blocked. When the action is the handler \<^verbatim>\<open>detach\<close>, the handler runs; with
  \<^verbatim>\<open>SA_RESETHAND\<close> the action of the signal is the default one from then on; with
  \<^verbatim>\<open>SA_RESTART\<close> the call is restarted and stays blocked, and without it the call fails
  with \<^verbatim>\<open>EINTR\<close>, returning \<open>eintr\<close>.
\<close>

fun blocked_in :: "'r \<Rightarrow> 'r outcome list \<Rightarrow> state \<Rightarrow> 'r res \<times> 'r outcome list \<times> state" where
  "blocked_in eintr [] s = (Blocked, [], s)"
| "blocked_in eintr (Returned r # ws) s = (Returns r, ws, s)"
| "blocked_in eintr (Interrupted sg # ws) s =
     (case handler_of sg s of
        SIG_DFL \<Rightarrow> (Killed sg, ws, s)
      | SIG_IGN \<Rightarrow> blocked_in eintr ws s
      | Handler_detach restart resethand \<Rightarrow>
          if restart
          then blocked_in eintr ws (detach sg (if resethand then set_handler sg SIG_DFL s else s))
          else (Returns eintr, ws, detach sg (if resethand then set_handler sg SIG_DFL s else s)))"

text \<open>
  \<^verbatim>\<open>waitpid(p, &status, 0)\<close> yields the returned process id and the status. When the call
  fails with \<^verbatim>\<open>EINTR\<close> it returns \<open>-1\<close> and writes no status; the caller does not read it
  then, and the model puts 0 there.
\<close>

definition waitpid ::
  "int \<Rightarrow> (int \<times> int) outcome list \<Rightarrow> state \<Rightarrow> (int \<times> int) res \<times> (int \<times> int) outcome list \<times> state"
where
  "waitpid p ws s = blocked_in (- 1, 0) ws (sys (Waitpid p) s)"

text \<open>
  \<^verbatim>\<open>waitid(P_PID, p, &siginfo, WEXITED)\<close>. An interrupted call returns \<open>-1\<close> and writes
  nothing to \<^verbatim>\<open>siginfo\<close>.
\<close>

definition waitid ::
  "int \<Rightarrow> waitid_result outcome list \<Rightarrow> state
     \<Rightarrow> waitid_result res \<times> waitid_result outcome list \<times> state"
where
  "waitid p ws s =
     blocked_in \<lparr>waitid_ret = - 1, si_pid_written = None, si_code = 0, si_status = 0\<rparr> ws
       (sys (Waitid p) s)"

lemma blocked_in_shorter:
  "blocked_in eintr ws s = (Returns r, ws1, s1) \<Longrightarrow> length ws1 < length ws"
proof (induction eintr ws s rule: blocked_in.induct)
  case (3 eintr sg ws s)
  then show ?case
    by (cases "handler_of sg s") (auto simp: less_Suc_eq split: if_splits)
qed auto

function wait_using_waitpid :: "(int \<times> int) outcome list \<Rightarrow> state \<Rightarrow> int res \<times> state" where
  "wait_using_waitpid ws s =
     (case waitpid (pid s) ws s of
        (Blocked, ws1, s1) \<Rightarrow> (Blocked, s1)
      | (Killed sg, ws1, s1) \<Rightarrow> (Killed sg, s1)
      | (Returns (returned_pid, waitpid_return_status), ws1, s1) \<Rightarrow>
          if returned_pid = - 1
          then (Returns FALSE, dprint (''Error waiting for process '' @ show_d (pid s1)) s1)
          else if returned_pid \<noteq> pid s1
          then (Returns FALSE,
                dprint (''waitpid returned wrong process ID '' @ show_d returned_pid
                        @ '' (expected '' @ show_d (pid s1) @ '')'') s1)
          else let s2 = dprint (''return status '' @ show_x waitpid_return_status) s1 in
          if \<not> (WIFSTOPPED waitpid_return_status
                \<and> drop_bit 8 waitpid_return_status = PTRACE_EXIT_SIGINFO_STATUS)
          then wait_using_waitpid ws1 s2
          else (Returns TRUE, s2))"
  by pat_completeness auto
termination
  by (relation "measure (\<lambda>(ws, s). length ws)")
     (auto simp: waitpid_def dest: blocked_in_shorter [OF sym])

function wait_using_waitid :: "waitid_result outcome list \<Rightarrow> state \<Rightarrow> int res \<times> state" where
  "wait_using_waitid ws s =
     (case waitid (pid s) ws s of
        (Blocked, ws1, s1) \<Rightarrow> (Blocked, s1)
      | (Killed sg, ws1, s1) \<Rightarrow> (Killed sg, s1)
      | (Returns siginfo, ws1, s1) \<Rightarrow>
          let si_pid = (case si_pid_written siginfo of None \<Rightarrow> 0 | Some p \<Rightarrow> p) in
          if waitid_ret siginfo \<noteq> 0
          then (Returns FALSE, dprint (''failed to wait on process '' @ show_d (pid s1)) s1)
          else if si_pid = 0
          then (Returns FALSE, dprint (''failed to connect to process '' @ show_d (pid s1)) s1)
          else let s2 = dprint (''siginfo status '' @ show_x (si_status siginfo)) s1 in
          if \<not> (si_code siginfo = CLD_TRAPPED \<and> si_status siginfo = PTRACE_EXIT_SIGINFO_STATUS)
          then wait_using_waitid ws1 s2
          else (Returns TRUE, s2))"
  by pat_completeness auto
termination
  by (relation "measure (\<lambda>(ws, s). length ws)")
     (auto simp: waitid_def dest: blocked_in_shorter [OF sym])

text \<open>The \<^verbatim>\<open>unsigned long\<close> event message is converted to \<^verbatim>\<open>int\<close> on return.\<close>

definition get_tracee_exit_status :: "os \<Rightarrow> state \<Rightarrow> int \<times> state" where
  "get_tracee_exit_status e s =
     (let s1 = sys (Ptrace_geteventmsg (pid s)) s
      in if geteventmsg_ret e = - 1
         then (- 1, dprint (''Error getting process '' @ show_d (pid s1) @ '' exit status'') s1)
         else (to_int32 (int (eventmsg e)), s1))"

text \<open>
  \<^verbatim>\<open>argv[0]\<close>, which is a null pointer when the program is started with no argument at
  all; glibc prints a null string as \<^verbatim>\<open>(null)\<close>.
\<close>

definition argv0 :: "string list \<Rightarrow> string" where
  "argv0 argv = (case argv of [] \<Rightarrow> ''(null)'' | name # _ \<Rightarrow> name)"

text \<open>
  \<^verbatim>\<open>main\<close>, in two parts: the part up to the call of the wait loop, and the part that
  follows the call (from the test of its result to the end), which is given the handlers
  saved in \<^verbatim>\<open>oldsiga_term\<close> and \<^verbatim>\<open>oldsiga_int\<close> and how the wait loop ended.
\<close>

definition main_after_wait ::
  "os \<Rightarrow> handler \<Rightarrow> handler \<Rightarrow> int res \<times> state \<Rightarrow> int res \<times> state"
where
  "main_after_wait e oldsiga_term oldsiga_int w =
     (case w of
        (Blocked, s) \<Rightarrow> (Blocked, s)
      | (Killed sg, s) \<Rightarrow> (Killed sg, s)
      | (Returns waited, s) \<Rightarrow>
          if waited = 0 then (Returns 1, s)
          else let s = dprint ''Wait successful'' s;
                   s = snd (sigaction SIGTERM oldsiga_term s);
                   s = snd (sigaction SIGINT oldsiga_int s) in
          (case get_tracee_exit_status e s of (tracee_exit_code, s) \<Rightarrow>
          let s = dprint ''Got exit code'' s in
          if tracee_exit_code = - 1 then (Returns 1, s)
          else (Returns 0,
                s\<lparr>stdout := stdout s @
                   [''Process '' @ show_d (pid s) @ '' exited with code ''
                    @ show_d tracee_exit_code]\<rparr>)))"

definition main :: "build \<Rightarrow> os \<Rightarrow> string list \<Rightarrow> int res \<times> state" where
  "main b e argv =
     (if length argv < 2 then (Returns 2, usage (argv0 argv) (initial e))
      else (case prepare_capabilities b e (initial e) of (capable, s) \<Rightarrow>
      if capable = 0 then (Returns 1, s)
      else (case strtol (argv ! 1) of (parsed, consumed) \<Rightarrow>
      let s = s\<lparr>pid := to_int32 parsed\<rparr> in
      if consumed = 0 then (Returns 1, dprint ''First argument must be a numeric PID'' s)
      else if pid s < 1
      then (Returns 1,
            dprint (''Invalid process ID '' @ show_d (pid s) @ '' passed as first argument'') s)
      else let siga = Handler_detach (siga_sa_restart e) (siga_sa_resethand e) in
           (case sigaction SIGTERM siga s of (oldsiga_term, s) \<Rightarrow>
           (case sigaction SIGINT siga s of (oldsiga_int, s) \<Rightarrow>
      let s = dprint (''Attempting to set ptrace on process '' @ show_d (pid s)) s;
          s = sys (if ptrace_seize_defined b then Ptrace_seize (pid s) else Ptrace_attach (pid s)) s
      in
      if ptrace_attach_ret e = - 1
      then (Returns 1, dprint (''Error setting ptrace on process '' @ show_d (pid s)) s)
      else main_after_wait e oldsiga_term oldsiga_int
             (wait_using_waitpid (wait_results e) s))))))"

section \<open>Notions of the specification\<close>

text \<open>
  The classified wait result of the specification. A result of \<^verbatim>\<open>waitpid\<close> is a wait
  error when the call returned \<open>-1\<close> or a process id other than the target's; it is the
  exit event when the status is a stopped one whose value shifted right by 8 equals
  \<^verbatim>\<open>SIGTRAP | (PTRACE_EVENT_EXIT << 8)\<close>; every other result is an unrelated stop.
\<close>

datatype trace_event = Unrelated_stop | Target_exiting | Wait_error

definition classify :: "int \<Rightarrow> int \<times> int \<Rightarrow> trace_event" where
  "classify target r =
     (if fst r = - 1 \<or> fst r \<noteq> target then Wait_error
      else if WIFSTOPPED (snd r) \<and> drop_bit 8 (snd r) = SIGTRAP OR push_bit 8 PTRACE_EVENT_EXIT
      then Target_exiting
      else Unrelated_stop)"

text \<open>
  The wait step of the specification over the successive results of the wait call: unrelated
  stops are discarded, the exit event ends it with success and a wait error with failure.
\<close>

fun event_waiter :: "int \<Rightarrow> (int \<times> int) list \<Rightarrow> int res" where
  "event_waiter target [] = Blocked"
| "event_waiter target (r # rs) =
     (case classify target r of
        Unrelated_stop \<Rightarrow> event_waiter target rs
      | Target_exiting \<Rightarrow> Returns TRUE
      | Wait_error \<Rightarrow> Returns FALSE)"

text \<open>
  A non-numeric argument: after white space and an optional sign it does not go on with a
  decimal digit. These are the arguments of which \<^verbatim>\<open>strtol\<close> converts nothing.
\<close>

definition non_numeric :: "string \<Rightarrow> bool" where
  "non_numeric a =
     (case snd (snd (strtol_sign (dropWhile isspace a))) of
        [] \<Rightarrow> True
      | c # cs \<Rightarrow> \<not> is_digit_of 10 c)"

text \<open>The calls that refer to a target process id.\<close>

fun references_target :: "call \<Rightarrow> bool" where
  "references_target (Ptrace_seize p) = True"
| "references_target (Ptrace_attach p) = True"
| "references_target (Ptrace_geteventmsg p) = True"
| "references_target (Ptrace_detach p) = True"
| "references_target (Waitpid p) = True"
| "references_target (Waitid p) = True"
| "references_target c = False"

text \<open>The state after the unrelated stops \<open>rs\<close> have been waited for and discarded.\<close>

fun discarded :: "(int \<times> int) list \<Rightarrow> state \<Rightarrow> state" where
  "discarded [] s = s"
| "discarded (r # rs) s =
     discarded rs (dprint (''return status '' @ show_x (snd r)) (sys (Waitpid (pid s)) s))"

text \<open>The order in which the negotiation goes through its libcap calls.\<close>

definition negotiation_order :: "call list" where
  "negotiation_order =
     [Cap_is_supported, Cap_get_proc, Cap_get_flag CAP_EFFECTIVE, Cap_get_flag CAP_PERMITTED,
      Cap_set_flag, Cap_set_proc, Cap_get_flag CAP_EFFECTIVE]"

text \<open>
  The run gets to trace the process \<open>p\<close>: an argument is given, the negotiation succeeds,
  the argument is converted to the positive id \<open>p\<close>, and the attach call succeeds.
\<close>

definition traces :: "build \<Rightarrow> os \<Rightarrow> string list \<Rightarrow> int \<Rightarrow> bool" where
  "traces b e argv p \<longleftrightarrow>
     2 \<le> length argv
     \<and> fst (prepare_capabilities b e (initial e)) \<noteq> 0
     \<and> snd (strtol (argv ! 1)) \<noteq> 0
     \<and> to_int32 (fst (strtol (argv ! 1))) = p
     \<and> 1 \<le> p
     \<and> ptrace_attach_ret e \<noteq> - 1"

text \<open>A build and an operating system to run the program on.\<close>

definition example_build :: build where
  "example_build = \<lparr>cap_sys_ptrace_defined = True, ptrace_seize_defined = True\<rparr>"

definition example_os :: os where
  "example_os =
     \<lparr>inherited_sigterm = SIG_DFL, inherited_sigint = SIG_DFL,
      siga_sa_restart = False, siga_sa_resethand = False,
      cap_is_supported = True, cap_get_proc_ok = True,
      cap_get_flag_effective = (0, CAP_SET), cap_get_flag_permitted = (0, CAP_SET),
      cap_set_flag_ret = 0, cap_set_proc_ret = 0, cap_get_flag_recheck = (0, CAP_SET),
      cap_free_ret = 0, ptrace_attach_ret = 0,
      wait_results = [Returned (1234, 0x57f), Returned (1234, 0x6057f)],
      geteventmsg_ret = 0, eventmsg = 10752\<rparr>"




text \<open>
  The stages of the negotiation, in terms of the answers of libcap: the first query of the
  effective set is reached and succeeds; it shows the capability set; the re-check after
  raising is reached and succeeds; the re-check shows the capability set.
\<close>

definition reaches_first_check :: "build \<Rightarrow> os \<Rightarrow> bool" where
  "reaches_first_check b e \<longleftrightarrow>
     cap_sys_ptrace_defined b \<and> cap_is_supported e \<and> cap_get_proc_ok e
     \<and> fst (cap_get_flag_effective e) \<noteq> - 1"

definition immediate_success :: "build \<Rightarrow> os \<Rightarrow> bool" where
  "immediate_success b e \<longleftrightarrow>
     reaches_first_check b e \<and> snd (cap_get_flag_effective e) = CAP_SET"

definition reaches_recheck :: "build \<Rightarrow> os \<Rightarrow> bool" where
  "reaches_recheck b e \<longleftrightarrow>
     reaches_first_check b e \<and> snd (cap_get_flag_effective e) \<noteq> CAP_SET
     \<and> fst (cap_get_flag_permitted e) \<noteq> - 1 \<and> snd (cap_get_flag_permitted e) = CAP_SET
     \<and> cap_set_flag_ret e \<noteq> - 1 \<and> cap_set_proc_ret e \<noteq> - 1
     \<and> fst (cap_get_flag_recheck e) \<noteq> - 1"

definition recheck_shows_set :: "build \<Rightarrow> os \<Rightarrow> bool" where
  "recheck_shows_set b e \<longleftrightarrow> reaches_recheck b e \<and> snd (cap_get_flag_recheck e) = CAP_SET"


definition raising_os :: os where
  "raising_os = example_os\<lparr>cap_get_flag_effective := (0, CAP_CLEAR)\<rparr>"

section \<open>Basic facts about the state and the wait loop\<close>

declare wait_using_waitpid.simps [simp del] wait_using_waitid.simps [simp del]
  show_nat.simps [simp del]

lemma sys_frame [simp]:
  "pid (sys c s) = pid s" "sigterm_handler (sys c s) = sigterm_handler s"
  "sigint_handler (sys c s) = sigint_handler s" "stdout (sys c s) = stdout s"
  "stderr (sys c s) = stderr s" "calls (sys c s) = calls s @ [c]"
  by (simp_all add: sys_def)

lemma dprint_frame [simp]:
  "pid (dprint m s) = pid s" "sigterm_handler (dprint m s) = sigterm_handler s"
  "sigint_handler (dprint m s) = sigint_handler s" "stdout (dprint m s) = stdout s"
  "stderr (dprint m s) = stderr s @ [m]" "calls (dprint m s) = calls s"
  by (simp_all add: dprint_def)

lemma handler_of_frame [simp]:
  "handler_of sg (sys c s) = handler_of sg s" "handler_of sg (dprint m s) = handler_of sg s"
  by (simp_all add: handler_of_def split: signal.splits)

lemma detach_frame [simp]:
  "pid (detach sg s) = pid s" "sigterm_handler (detach sg s) = sigterm_handler s"
  "sigint_handler (detach sg s) = sigint_handler s" "stdout (detach sg s) = stdout s"
  "stderr (detach sg s) = stderr s" "calls (detach sg s) = calls s @ [Ptrace_detach (pid s)]"
  by (simp_all add: detach_def)

lemma wait_using_waitpid_Nil:
  "wait_using_waitpid [] s = (Blocked, sys (Waitpid (pid s)) s)"
  by (subst wait_using_waitpid.simps) (simp add: waitpid_def)

lemma wait_using_waitpid_Returned:
  "wait_using_waitpid (Returned r # ws) s =
     (case classify (pid s) r of
        Wait_error \<Rightarrow>
          (Returns FALSE,
           dprint (if fst r = - 1 then ''Error waiting for process '' @ show_d (pid s)
                   else ''waitpid returned wrong process ID '' @ show_d (fst r)
                        @ '' (expected '' @ show_d (pid s) @ '')'')
             (sys (Waitpid (pid s)) s))
      | Target_exiting \<Rightarrow> (Returns TRUE, discarded [r] s)
      | Unrelated_stop \<Rightarrow> wait_using_waitpid ws (discarded [r] s))"
  by (subst wait_using_waitpid.simps)
     (cases r; simp add: waitpid_def classify_def PTRACE_EXIT_SIGINFO_STATUS_def Let_def)

lemma set_handler_frame [simp]:
  "pid (set_handler sg h s) = pid s" "stdout (set_handler sg h s) = stdout s"
  "calls (set_handler sg h s) = calls s"
  by (simp_all add: set_handler_def split: signal.splits)

lemma wait_using_waitpid_Interrupted:
  "handler_of sg s = Handler_detach restart resethand \<Longrightarrow>
   wait_using_waitpid [Interrupted sg] s =
     (let s1 = sys (Waitpid (pid s)) s;
          s2 = detach sg (if resethand then set_handler sg SIG_DFL s1 else s1)
      in if restart then (Blocked, s2)
         else (Returns FALSE, dprint (''Error waiting for process '' @ show_d (pid s)) s2))"
  by (subst wait_using_waitpid.simps) (simp add: waitpid_def)

lemma discarded_frame [simp]:
  "pid (discarded rs s) = pid s" "sigterm_handler (discarded rs s) = sigterm_handler s"
  "sigint_handler (discarded rs s) = sigint_handler s" "stdout (discarded rs s) = stdout s"
  "calls (discarded rs s) = calls s @ replicate (length rs) (Waitpid (pid s))"
  by (induction rs arbitrary: s; simp add: replicate_append_same)+

lemma handler_of_discarded [simp]: "handler_of sg (discarded rs s) = handler_of sg s"
  by (simp add: handler_of_def split: signal.splits)

lemma discarded_append: "discarded (rs @ rs') s = discarded rs' (discarded rs s)"
  by (induction rs arbitrary: s) simp_all

lemma wait_using_waitpid_discards:
  "\<forall>r\<in>set rs. classify (pid s) r = Unrelated_stop \<Longrightarrow>
   wait_using_waitpid (map Returned rs @ ws) s = wait_using_waitpid ws (discarded rs s)"
  by (induction rs arbitrary: s) (simp_all add: wait_using_waitpid_Returned)

lemma event_waiter_discards:
  "\<forall>r\<in>set rs. classify p r = Unrelated_stop \<Longrightarrow> event_waiter p (rs @ rs') = event_waiter p rs'"
  by (induction rs) simp_all

section \<open>Basic facts about the negotiation and \<^verbatim>\<open>main\<close>\<close>

lemma cap_free_safe_frame [simp]:
  "pid (snd (cap_free_safe e s)) = pid s"
  "sigterm_handler (snd (cap_free_safe e s)) = sigterm_handler s"
  "sigint_handler (snd (cap_free_safe e s)) = sigint_handler s"
  "stdout (snd (cap_free_safe e s)) = stdout s"
  "calls (snd (cap_free_safe e s)) = calls s @ [Cap_free]"
  "fst (cap_free_safe e s) = cap_free_ret e"
  by (simp_all add: cap_free_safe_def Let_def)

lemma prepare_capabilities_frame [simp]:
  "pid (snd (prepare_capabilities b e s)) = pid s"
  "sigterm_handler (snd (prepare_capabilities b e s)) = sigterm_handler s"
  "sigint_handler (snd (prepare_capabilities b e s)) = sigint_handler s"
  "stdout (snd (prepare_capabilities b e s)) = stdout s"
  by (simp_all add: prepare_capabilities_def Let_def case_prod_beta)

lemma prepare_capabilities_calls:
  "\<exists>cs. calls (snd (prepare_capabilities b e s)) = calls s @ cs
        \<and> prefix (filter (\<lambda>c. c \<noteq> Cap_free) cs) negotiation_order"
  by (simp add: prepare_capabilities_def Let_def negotiation_order_def case_prod_beta)

lemma prepare_capabilities_result:
  "fst (prepare_capabilities b e s) = TRUE \<or> fst (prepare_capabilities b e s) = FALSE"
  by (simp add: prepare_capabilities_def Let_def case_prod_beta TRUE_def FALSE_def)

lemma prepare_capabilities_no_target:
  "\<forall>c\<in>set (calls (snd (prepare_capabilities b e s))). references_target c \<longrightarrow> c \<in> set (calls s)"
  by (simp add: prepare_capabilities_def Let_def case_prod_beta)

lemma initial_frame [simp]:
  "pid (initial e) = 0" "sigterm_handler (initial e) = inherited_sigterm e"
  "sigint_handler (initial e) = inherited_sigint e" "stdout (initial e) = []"
  "calls (initial e) = []"
  by (simp_all add: initial_def)

lemma main_usage:
  "length argv < 2 \<Longrightarrow> main b e argv = (Returns 2, usage (argv0 argv) (initial e))"
  by (simp add: main_def)

lemma main_not_capable:
  "2 \<le> length argv \<Longrightarrow> fst (prepare_capabilities b e (initial e)) = 0 \<Longrightarrow>
   main b e argv = (Returns 1, snd (prepare_capabilities b e (initial e)))"
  by (simp add: main_def case_prod_beta)

lemma main_rejected:
  assumes "2 \<le> length argv"
    and "snd (strtol (argv ! 1)) = 0 \<or> to_int32 (fst (strtol (argv ! 1))) < 1"
  shows "fst (main b e argv) = Returns 1"
    and "calls (snd (main b e argv)) = calls (snd (prepare_capabilities b e (initial e)))"
    and "stdout (snd (main b e argv)) = []"
  using assms by (auto simp: main_def case_prod_beta Let_def)

lemma main_traces:
  assumes "traces b e argv p"
  obtains s where
    "main b e argv =
       main_after_wait e (inherited_sigterm e) (inherited_sigint e)
         (wait_using_waitpid (wait_results e) s)"
    and "pid s = p"
    and "sigterm_handler s = Handler_detach (siga_sa_restart e) (siga_sa_resethand e)"
    and "sigint_handler s = Handler_detach (siga_sa_restart e) (siga_sa_resethand e)"
    and "stdout s = []"
proof -
  define siga where "siga = Handler_detach (siga_sa_restart e) (siga_sa_resethand e)"
  define s1 where "s1 = (snd (prepare_capabilities b e (initial e)))\<lparr>pid := p\<rparr>"
  define s2 where "s2 = snd (sigaction SIGINT siga (snd (sigaction SIGTERM siga s1)))"
  define s3 where "s3 = sys (if ptrace_seize_defined b then Ptrace_seize p else Ptrace_attach p)
     (dprint (''Attempting to set ptrace on process '' @ show_d p) s2)"
  have "main b e argv =
       main_after_wait e (inherited_sigterm e) (inherited_sigint e)
         (wait_using_waitpid (wait_results e) s3)"
    using assms
    by (simp add: traces_def main_def case_prod_beta Let_def s1_def s2_def s3_def siga_def
        sigaction_def handler_of_def set_handler_def)
  moreover have "pid s3 = p" "sigterm_handler s3 = siga" "sigint_handler s3 = siga" "stdout s3 = []"
    by (simp_all add: s1_def s2_def s3_def sigaction_def set_handler_def)
  ultimately show ?thesis
    unfolding siga_def ..
qed

lemma wait_using_waitpid_decided:
  assumes "\<forall>x\<in>set rs. classify (pid s) x = Unrelated_stop"
    and "classify (pid s) r \<noteq> Unrelated_stop"
  obtains s' where
    "wait_using_waitpid (map Returned rs @ Returned r # rest) s
       = (Returns (if classify (pid s) r = Target_exiting then TRUE else FALSE), s')"
    and "pid s' = pid s" and "stdout s' = stdout s"
    and "sigterm_handler s' = sigterm_handler s" and "sigint_handler s' = sigint_handler s"
proof (cases "classify (pid s) r")
  case Unrelated_stop
  with assms(2) show ?thesis by simp
next
  case Target_exiting
  show ?thesis
    by (rule that [of "discarded (rs @ [r]) s"])
       (simp_all add: assms(1) Target_exiting wait_using_waitpid_discards
          wait_using_waitpid_Returned discarded_append)
next
  case Wait_error
  show ?thesis
    by (rule that [of "dprint (if fst r = - 1 then ''Error waiting for process '' @ show_d (pid s)
                   else ''waitpid returned wrong process ID '' @ show_d (fst r)
                        @ '' (expected '' @ show_d (pid s) @ '')'')
             (sys (Waitpid (pid s)) (discarded rs s))"])
       (simp_all add: assms(1) Wait_error wait_using_waitpid_discards
          wait_using_waitpid_Returned)
qed

lemma main_after_wait_failed:
  "main_after_wait e ot oi (Returns FALSE, s) = (Returns 1, s)"
  by (simp add: main_after_wait_def FALSE_def)

lemma main_after_wait_succeeded:
  "main_after_wait e ot oi (Returns TRUE, s) = (r, s') \<Longrightarrow>
     sigterm_handler s' = ot \<and> sigint_handler s' = oi
     \<and> (if geteventmsg_ret e = - 1 \<or> to_int32 (int (eventmsg e)) = - 1
         then r = Returns 1 \<and> stdout s' = stdout s
         else r = Returns 0
              \<and> stdout s' = stdout s @ [''Process '' @ show_d (pid s) @ '' exited with code ''
                                         @ show_d (to_int32 (int (eventmsg e)))])"
  by (auto simp: main_after_wait_def TRUE_def Let_def get_tracee_exit_status_def
      sigaction_def set_handler_def split: if_splits)

lemmas evals = example_build_def example_os_def traces_def prepare_capabilities_def
  initial_def sys_def dprint_def Let_def TRUE_def FALSE_def strtol_def isspace_def
  digit_value_def is_digit_of_def LONG_MAX_def LONG_MIN_def to_int32_def classify_def
  WIFSTOPPED_def SIGTRAP_def PTRACE_EVENT_EXIT_def show_d_def show_nat.simps digit_char_def

lemma to_int32_small: "0 \<le> x \<Longrightarrow> x < 2 ^ 31 \<Longrightarrow> to_int32 x = x"
  by (simp add: to_int32_def Let_def)

lemma strtol_base_not_zero:
  "c \<noteq> CHR ''0'' \<Longrightarrow> strtol_base (c # cs) = (10, 0, c # cs)"
  by (cases "c # cs" rule: strtol_base.cases) auto

lemma scan_digits_count: "n \<le> snd (scan_digits b cs acc n)"
proof (induction cs arbitrary: acc n)
  case (Cons c cs)
  have "n \<le> snd (scan_digits b cs acc' (Suc n))" for acc'
    using Cons [of "Suc n" acc'] by simp
  then show ?case
    by (simp split: option.splits)
qed simp

lemma scan_digits_first:
  "is_digit_of b c \<Longrightarrow> 0 < snd (scan_digits b (c # cs) acc 0)"
  using scan_digits_count [of "Suc 0" b cs]
  by (auto simp: is_digit_of_def less_eq_Suc_le split: option.splits)

lemma strtol_base_zero:
  "\<exists>b p ds. strtol_base (CHR ''0'' # cs) = (b, p, ds) \<and> ds \<noteq> [] \<and> is_digit_of b (hd ds)"
  by (cases "CHR ''0'' # cs" rule: strtol_base.cases)
     (auto simp: is_digit_of_def digit_value_def)

lemma strtol_non_numeric: "snd (strtol a) = 0 \<longleftrightarrow> non_numeric a"
proof -
  obtain neg sl r where sg: "strtol_sign (dropWhile isspace a) = (neg, sl, r)"
    by (cases "strtol_sign (dropWhile isspace a)")
  show ?thesis
  proof (cases r)
    case Nil
    with sg show ?thesis
      by (simp add: strtol_def non_numeric_def)
  next
    case (Cons c cs)
    show ?thesis
    proof (cases "is_digit_of 10 c")
      case False
      then have "c \<noteq> CHR ''0''"
        by (auto simp: is_digit_of_def digit_value_def)
      with False sg Cons show ?thesis
        by (simp add: strtol_def non_numeric_def strtol_base_not_zero is_digit_of_def
            split: option.splits)
    next
      case True
      show ?thesis
      proof (cases "c = CHR ''0''")
        case z: True
        obtain b p ds where b: "strtol_base (c # cs) = (b, p, ds)" "ds \<noteq> []"
          "is_digit_of b (hd ds)"
          using strtol_base_zero [of cs] z by auto
        then obtain d ds' where ds: "ds = d # ds'" "is_digit_of b d"
          by (cases ds) auto
        have "0 < snd (scan_digits b ds 0 0)"
          unfolding ds using ds(2) by (rule scan_digits_first)
        with True sg Cons b show ?thesis
          by (simp add: strtol_def non_numeric_def case_prod_beta)
      next
        case nz: False
        have "0 < snd (scan_digits 10 (c # cs) 0 0)"
          using True by (rule scan_digits_first)
        with True sg Cons nz show ?thesis
          by (simp add: strtol_def non_numeric_def strtol_base_not_zero case_prod_beta)
      qed
    qed
  qed
qed

lemma no_target_calls_initial:
  "\<forall>c\<in>set (calls (snd (prepare_capabilities b e (initial e)))). \<not> references_target c"
  using prepare_capabilities_no_target [of b e "initial e"] by auto



lemma wait_using_waitpid_results:
  "fst (wait_using_waitpid (map Returned rs) s) = event_waiter (pid s) rs"
proof (induction rs arbitrary: s)
  case Nil
  show ?case by (simp add: wait_using_waitpid_Nil)
next
  case (Cons r rs)
  show ?case
  proof (cases "classify (pid s) r")
    case Unrelated_stop
    then show ?thesis
      using Cons.IH [of "discarded [r] s"] by (simp add: wait_using_waitpid_Returned)
  qed (simp_all add: wait_using_waitpid_Returned)
qed

lemma W_EXITCODE_0: "W_EXITCODE k 0 = 256 * k"
  by (simp add: W_EXITCODE_def push_bit_eq_mult)

lemma to_int32_eq_iff: "0 \<le> x \<Longrightarrow> to_int32 x = x \<longleftrightarrow> x < 2 ^ 31"
proof -
  assume x: "0 \<le> x"
  have m: "0 \<le> x mod 2 ^ 32" "x mod 2 ^ 32 < 2 ^ 32" "x mod 2 ^ 32 \<le> x"
    using x by (simp_all add: zmod_le_nonneg_dividend)
  show ?thesis
  proof (cases "x < 2 ^ 31")
    case True
    with x show ?thesis by (simp add: to_int32_small)
  next
    case False
    with m show ?thesis
      by (auto simp: to_int32_def Let_def)
  qed
qed

lemma main_observes_exit:
  assumes "traces b e argv p"
    and "wait_results e = map Returned rs @ Returned (p, status) # rest"
    and "\<forall>r\<in>set rs. classify p r = Unrelated_stop"
    and "classify p (p, status) = Target_exiting"
  shows "fst (main b e argv)
           = (if geteventmsg_ret e = - 1 \<or> to_int32 (int (eventmsg e)) = - 1
              then Returns 1 else Returns 0)"
    and "stdout (snd (main b e argv))
           = (if geteventmsg_ret e = - 1 \<or> to_int32 (int (eventmsg e)) = - 1 then []
              else [''Process '' @ show_d p @ '' exited with code ''
                    @ show_d (to_int32 (int (eventmsg e)))])"
    and "sigterm_handler (snd (main b e argv)) = inherited_sigterm e"
    and "sigint_handler (snd (main b e argv)) = inherited_sigint e"
proof -
  obtain s where m: "main b e argv =
       main_after_wait e (inherited_sigterm e) (inherited_sigint e)
         (wait_using_waitpid (wait_results e) s)"
    and s: "pid s = p" "stdout s = []"
    using main_traces [OF assms(1)] by metis
  have d: "classify (pid s) (p, status) \<noteq> Unrelated_stop"
    using assms(4) s by simp
  obtain s' where w: "wait_using_waitpid (wait_results e) s = (Returns TRUE, s')"
    and s': "pid s' = p" "stdout s' = []"
    using wait_using_waitpid_decided [of rs s "(p, status)" rest] assms(3,4) s
    by (auto simp: assms(2))
  obtain r t where r: "main b e argv = (r, t)"
    by (cases "main b e argv")
  note a = main_after_wait_succeeded [OF r [unfolded m w]]
  from a s' show "fst (main b e argv)
           = (if geteventmsg_ret e = - 1 \<or> to_int32 (int (eventmsg e)) = - 1
              then Returns 1 else Returns 0)"
    by (simp add: r split: if_splits)
  from a s' show "stdout (snd (main b e argv))
           = (if geteventmsg_ret e = - 1 \<or> to_int32 (int (eventmsg e)) = - 1 then []
              else [''Process '' @ show_d p @ '' exited with code ''
                    @ show_d (to_int32 (int (eventmsg e)))])"
    by (simp add: r split: if_splits)
  from a show "sigterm_handler (snd (main b e argv)) = inherited_sigterm e"
    and "sigint_handler (snd (main b e argv)) = inherited_sigint e"
    by (simp_all add: r)
qed

lemma main_wait_error:
  assumes "traces b e argv p"
    and "wait_results e = map Returned rs @ Returned r # rest"
    and "\<forall>x\<in>set rs. classify p x = Unrelated_stop"
    and "classify p r = Wait_error"
  shows "fst (main b e argv) = Returns 1"
    and "stdout (snd (main b e argv)) = []"
    and "sigterm_handler (snd (main b e argv))
           = Handler_detach (siga_sa_restart e) (siga_sa_resethand e)"
    and "sigint_handler (snd (main b e argv))
           = Handler_detach (siga_sa_restart e) (siga_sa_resethand e)"
proof -
  obtain s where m: "main b e argv =
       main_after_wait e (inherited_sigterm e) (inherited_sigint e)
         (wait_using_waitpid (wait_results e) s)"
    and s: "pid s = p" "stdout s = []"
      "sigterm_handler s = Handler_detach (siga_sa_restart e) (siga_sa_resethand e)"
      "sigint_handler s = Handler_detach (siga_sa_restart e) (siga_sa_resethand e)"
    using main_traces [OF assms(1)] by metis
  obtain s' where w: "wait_using_waitpid (wait_results e) s = (Returns FALSE, s')"
    and s': "stdout s' = []"
      "sigterm_handler s' = Handler_detach (siga_sa_restart e) (siga_sa_resethand e)"
      "sigint_handler s' = Handler_detach (siga_sa_restart e) (siga_sa_resethand e)"
    using wait_using_waitpid_decided [of rs s r rest] assms(3,4) s
    by (auto simp: assms(2))
  show "fst (main b e argv) = Returns 1"
    and "stdout (snd (main b e argv)) = []"
    and "sigterm_handler (snd (main b e argv))
           = Handler_detach (siga_sa_restart e) (siga_sa_resethand e)"
    and "sigint_handler (snd (main b e argv))
           = Handler_detach (siga_sa_restart e) (siga_sa_resethand e)"
    using s' by (simp_all add: m w main_after_wait_failed)
qed

lemma main_after_wait_blocked:
  "main_after_wait e ot oi (Blocked, s) = (Blocked, s)"
  by (simp add: main_after_wait_def)

section \<open>The claims\<close>

text \<open>
  C1 fails on the code. At its exit event the event message of a process that has called
  \<^verbatim>\<open>exit(k)\<close> is \<^verbatim>\<open>W_EXITCODE(k, 0)\<close>, the code shifted left by 8. In a run that traces \<open>p\<close>
  and observes the exit event, \<^verbatim>\<open>get_tracee_exit_status\<close> returns that message as it is
  and \<^verbatim>\<open>main\<close> prints it: the success line reports \<open>256 * k\<close>, not \<open>k\<close>, and
  \<^verbatim>\<open>main\<close> returns 0.
\<close>

theorem exit_status_printed_undecoded:
  assumes "traces b e argv p"
    and "wait_results e = map Returned rs @ Returned (p, status) # rest"
    and "\<forall>r\<in>set rs. classify p r = Unrelated_stop"
    and "classify p (p, status) = Target_exiting"
    and "geteventmsg_ret e \<noteq> - 1" and "eventmsg e = W_EXITCODE k 0" and "k \<le> 255"
  shows "fst (main b e argv) = Returns 0
     \<and> stdout (snd (main b e argv))
         = [''Process '' @ show_d p @ '' exited with code '' @ show_d (256 * int k)]"
proof -
  have k: "to_int32 (int (eventmsg e)) = 256 * int k"
    using assms(7) by (simp add: assms(6) W_EXITCODE_0 to_int32_small)
  then have "to_int32 (int (eventmsg e)) \<noteq> - 1"
    by simp
  with main_observes_exit(1,2) [OF assms(1-4)] assms(5) k show ?thesis
    by simp
qed

theorem exit_status_printed_undecoded_witness:
  "traces example_build example_os [''pwait'', ''1234''] 1234
   \<and> eventmsg example_os = W_EXITCODE 42 0
   \<and> fst (main example_build example_os [''pwait'', ''1234'']) = Returns 0
   \<and> stdout (snd (main example_build example_os [''pwait'', ''1234'']))
       = [''Process 1234 exited with code 10752'']"
proof -
  have t: "traces example_build example_os [''pwait'', ''1234''] 1234"
    by (simp add: evals)
  have w: "wait_results example_os = map Returned [(1234, 0x57f)] @ Returned (1234, 0x6057f) # []"
    by (simp add: example_os_def)
  have u: "\<forall>r\<in>set [(1234, 0x57f)]. classify 1234 r = Unrelated_stop"
    by (simp add: evals)
  have x: "classify 1234 (1234, 0x6057f) = Target_exiting"
    by (simp add: evals)
  have g: "geteventmsg_ret example_os \<noteq> - 1" "eventmsg example_os = W_EXITCODE 42 0"
    "(42::nat) \<le> 255"
    by (simp_all add: example_os_def W_EXITCODE_0)
  show ?thesis
    using exit_status_printed_undecoded [OF t w u x g] t g(2)
    by (simp add: show_d_def show_nat.simps digit_char_def)
qed

text \<open>
  C2, as the code has it. When the first argument is non-numeric (\<^verbatim>\<open>strtol\<close> converts
  nothing of it, \<^verbatim>\<open>argv[1] == endptr\<close>), \<^verbatim>\<open>main\<close> returns 1, no call that refers to a
  target process id is made, and no success line is printed. This holds whether the
  negotiation, which runs first, succeeds or not.
\<close>

theorem non_numeric_argument:
  assumes "2 \<le> length argv" and "non_numeric (argv ! 1)"
  shows "fst (main b e argv) = Returns 1
     \<and> (\<forall>c\<in>set (calls (snd (main b e argv))). \<not> references_target c)
     \<and> stdout (snd (main b e argv)) = []"
  using assms main_rejected [of argv b e] no_target_calls_initial [of b e]
  by (simp add: strtol_non_numeric)

theorem non_numeric_argument_witness:
  "2 \<le> length [''pwait'', ''abc''] \<and> non_numeric ([''pwait'', ''abc''] ! 1)
   \<and> fst (main example_build example_os [''pwait'', ''abc'']) = Returns 1
   \<and> calls (snd (main example_build example_os [''pwait'', ''abc'']))
       = [Cap_is_supported, Cap_get_proc, Cap_get_flag CAP_EFFECTIVE]
   \<and> stdout (snd (main example_build example_os [''pwait'', ''abc''])) = []"
proof -
  have h: "2 \<le> length [''pwait'', ''abc'']" "non_numeric ([''pwait'', ''abc''] ! 1)"
    by (simp_all add: non_numeric_def isspace_def is_digit_of_def digit_value_def)
  have c: "calls (snd (main example_build example_os [''pwait'', ''abc'']))
       = [Cap_is_supported, Cap_get_proc, Cap_get_flag CAP_EFFECTIVE]"
    by (simp add: main_def evals)
  show ?thesis
    using non_numeric_argument [OF h, of example_build example_os] h c by simp
qed

text \<open>
  C2 as stated fails: with the argument \<^verbatim>\<open>abc\<close> the program returns 1, not 2.
\<close>

theorem non_numeric_argument_counterexample:
  "non_numeric ''abc''
   \<and> fst (main example_build example_os [''pwait'', ''abc'']) = Returns 1
   \<and> fst (main example_build example_os [''pwait'', ''abc'']) \<noteq> Returns 2"
  by (simp add: main_def non_numeric_def evals)

text \<open>
  C3, as the code has it. When the argument is converted to an id below 1, \<^verbatim>\<open>main\<close>
  returns 1; the calls of the run are exactly those of the capability negotiation, which
  has run before the id is looked at; no call refers to a target process id.
\<close>

theorem non_positive_id:
  assumes "2 \<le> length argv" and "snd (strtol (argv ! 1)) \<noteq> 0"
    and "to_int32 (fst (strtol (argv ! 1))) < 1"
  shows "fst (main b e argv) = Returns 1
     \<and> calls (snd (main b e argv)) = calls (snd (prepare_capabilities b e (initial e)))
     \<and> (\<forall>c\<in>set (calls (snd (main b e argv))). \<not> references_target c)
     \<and> stdout (snd (main b e argv)) = []"
  using assms main_rejected [of argv b e] no_target_calls_initial [of b e] by simp

theorem non_positive_id_witness:
  "2 \<le> length [''pwait'', ''-5''] \<and> snd (strtol ([''pwait'', ''-5''] ! 1)) \<noteq> 0
   \<and> to_int32 (fst (strtol ([''pwait'', ''-5''] ! 1))) < 1
   \<and> fst (main example_build example_os [''pwait'', ''-5'']) = Returns 1
   \<and> calls (snd (main example_build example_os [''pwait'', ''-5'']))
       = calls (snd (prepare_capabilities example_build example_os (initial example_os)))"
proof -
  have h: "2 \<le> length [''pwait'', ''-5'']" "snd (strtol ([''pwait'', ''-5''] ! 1)) \<noteq> 0"
    "to_int32 (fst (strtol ([''pwait'', ''-5''] ! 1))) < 1"
    by (simp_all add: evals)
  show ?thesis
    using non_positive_id [OF h, of example_build example_os] h by simp
qed

text \<open>
  C3 as stated fails: with the argument \<^verbatim>\<open>0\<close> the program returns 1, not 2, and the
  negotiation has been executed, as its three libcap calls show.
\<close>

theorem non_positive_id_counterexample:
  "snd (strtol ''0'') \<noteq> 0 \<and> to_int32 (fst (strtol ''0'')) = 0
   \<and> fst (main example_build example_os [''pwait'', ''0'']) = Returns 1
   \<and> fst (main example_build example_os [''pwait'', ''0'']) \<noteq> Returns 2
   \<and> calls (snd (main example_build example_os [''pwait'', ''0'']))
       = [Cap_is_supported, Cap_get_proc, Cap_get_flag CAP_EFFECTIVE]"
  by (simp add: main_def evals)

text \<open>
  C4 fails on the code. In a run that traces \<open>p\<close>, let a termination signal be delivered
  while \<^verbatim>\<open>waitpid\<close> is blocked, after unrelated stops only, and let no further wait result
  follow. The handler issues the detach request, which is the last call of the run, and no
  success line is printed. Whether \<^verbatim>\<open>main\<close> returns depends on the uninitialised
  \<^verbatim>\<open>sa_flags\<close>: without \<^verbatim>\<open>SA_RESTART\<close> the call fails and \<^verbatim>\<open>main\<close> returns 1; with it the
  call is restarted and \<^verbatim>\<open>main\<close> stays blocked.
\<close>

theorem interrupted_wait_restart:
  assumes "traces b e argv p"
    and "wait_results e = map Returned rs @ [Interrupted sg]"
    and "\<forall>r\<in>set rs. classify p r = Unrelated_stop"
  shows "fst (main b e argv) = (if siga_sa_restart e then Blocked else Returns 1)
     \<and> stdout (snd (main b e argv)) = []
     \<and> last (calls (snd (main b e argv))) = Ptrace_detach p"
proof -
  obtain s where m: "main b e argv =
       main_after_wait e (inherited_sigterm e) (inherited_sigint e)
         (wait_using_waitpid (wait_results e) s)"
    and s: "pid s = p" "stdout s = []"
      "sigterm_handler s = Handler_detach (siga_sa_restart e) (siga_sa_resethand e)"
      "sigint_handler s = Handler_detach (siga_sa_restart e) (siga_sa_resethand e)"
    using main_traces [OF assms(1)] by metis
  have h: "handler_of sg (discarded rs s)
             = Handler_detach (siga_sa_restart e) (siga_sa_resethand e)"
    using s by (simp add: handler_of_def split: signal.splits)
  have w: "wait_using_waitpid (wait_results e) s
             = wait_using_waitpid [Interrupted sg] (discarded rs s)"
    using assms(3) s by (simp add: assms(2) wait_using_waitpid_discards)
  show ?thesis
    using s
    by (cases "siga_sa_restart e")
       (simp_all add: m w wait_using_waitpid_Interrupted [OF h] Let_def
          main_after_wait_failed main_after_wait_blocked)
qed

theorem interrupted_wait_restart_witness:
  "traces example_build
     (example_os\<lparr>siga_sa_restart := True,
                 wait_results := [Returned (1234, 0x57f), Interrupted SIGINT]\<rparr>)
     [''pwait'', ''1234''] 1234
   \<and> siga_sa_restart (example_os\<lparr>siga_sa_restart := True,
                 wait_results := [Returned (1234, 0x57f), Interrupted SIGINT]\<rparr>)
   \<and> fst (main example_build
       (example_os\<lparr>siga_sa_restart := True,
                   wait_results := [Returned (1234, 0x57f), Interrupted SIGINT]\<rparr>)
       [''pwait'', ''1234'']) = Blocked
   \<and> last (calls (snd (main example_build
       (example_os\<lparr>siga_sa_restart := True,
                   wait_results := [Returned (1234, 0x57f), Interrupted SIGINT]\<rparr>)
       [''pwait'', ''1234'']))) = Ptrace_detach 1234"
proof -
  let ?e = "example_os\<lparr>siga_sa_restart := True,
                 wait_results := [Returned (1234, 0x57f), Interrupted SIGINT]\<rparr>"
  have t: "traces example_build ?e [''pwait'', ''1234''] 1234"
    by (simp add: evals)
  have w: "wait_results ?e = map Returned [(1234, 0x57f)] @ [Interrupted SIGINT]"
    by simp
  have u: "\<forall>r\<in>set [(1234, 0x57f)]. classify 1234 r = Unrelated_stop"
    by (simp add: evals)
  show ?thesis
    using interrupted_wait_restart [OF t w u] t by simp
qed

text \<open>
  C8. When an argument is given and the capability negotiation returns \<^verbatim>\<open>FALSE\<close>,
  \<^verbatim>\<open>main\<close> returns 1 and makes no call that refers to a target process id: neither
  attach nor seize is attempted.
\<close>

theorem negotiation_failure:
  assumes "2 \<le> length argv" and "fst (prepare_capabilities b e (initial e)) = FALSE"
  shows "fst (main b e argv) = Returns 1
     \<and> (\<forall>c\<in>set (calls (snd (main b e argv))). \<not> references_target c)
     \<and> stdout (snd (main b e argv)) = []"
  using assms main_not_capable [of argv b e] no_target_calls_initial [of b e]
  by (simp add: FALSE_def)

theorem negotiation_failure_witness:
  "2 \<le> length [''pwait'', ''1234'']
   \<and> fst (prepare_capabilities example_build (example_os\<lparr>cap_is_supported := False\<rparr>)
            (initial (example_os\<lparr>cap_is_supported := False\<rparr>))) = FALSE
   \<and> fst (main example_build (example_os\<lparr>cap_is_supported := False\<rparr>) [''pwait'', ''1234''])
       = Returns 1
   \<and> calls (snd (main example_build (example_os\<lparr>cap_is_supported := False\<rparr>)
                 [''pwait'', ''1234''])) = [Cap_is_supported]
   \<and> stdout (snd (main example_build (example_os\<lparr>cap_is_supported := False\<rparr>)
                 [''pwait'', ''1234''])) = []"
proof -
  have h: "2 \<le> length [''pwait'', ''1234'']"
    "fst (prepare_capabilities example_build (example_os\<lparr>cap_is_supported := False\<rparr>)
            (initial (example_os\<lparr>cap_is_supported := False\<rparr>))) = FALSE"
    by (simp_all add: evals)
  have c: "calls (snd (main example_build (example_os\<lparr>cap_is_supported := False\<rparr>)
                 [''pwait'', ''1234''])) = [Cap_is_supported]"
    by (simp add: main_def evals)
  show ?thesis
    using negotiation_failure [OF h] h c by simp
qed

text \<open>
  C9, as the code has it. In a run that traces \<open>p\<close> and whose wait step is decided by a
  result of \<^verbatim>\<open>waitpid\<close>, after unrelated stops only: when that result is the exit event,
  so that the wait step returns success, the handlers of \<^verbatim>\<open>SIGTERM\<close> and \<^verbatim>\<open>SIGINT\<close> that
  were installed before are restored; when it is a wait error, so that the wait step returns
  failure, \<^verbatim>\<open>main\<close> returns 1 at once and both signals keep the handler \<^verbatim>\<open>detach\<close>.
\<close>

theorem handlers_restored_on_success:
  assumes "traces b e argv p"
    and "wait_results e = map Returned rs @ Returned r # rest"
    and "\<forall>x\<in>set rs. classify p x = Unrelated_stop"
  shows "(classify p r = Target_exiting \<longrightarrow>
            sigterm_handler (snd (main b e argv)) = inherited_sigterm e
          \<and> sigint_handler (snd (main b e argv)) = inherited_sigint e)
       \<and> (classify p r = Wait_error \<longrightarrow>
            fst (main b e argv) = Returns 1
          \<and> sigterm_handler (snd (main b e argv))
              = Handler_detach (siga_sa_restart e) (siga_sa_resethand e)
          \<and> sigint_handler (snd (main b e argv))
              = Handler_detach (siga_sa_restart e) (siga_sa_resethand e))"
proof (intro conjI impI)
  assume x: "classify p r = Target_exiting"
  then have "fst r = p"
    by (simp add: classify_def split: if_splits)
  then obtain status where r: "r = (p, status)"
    by (cases r) simp
  from main_observes_exit(3,4) [OF assms(1) assms(2) [unfolded r] assms(3) x [unfolded r]]
  show "sigterm_handler (snd (main b e argv)) = inherited_sigterm e"
    and "sigint_handler (snd (main b e argv)) = inherited_sigint e"
    by simp_all
next
  assume x: "classify p r = Wait_error"
  from main_wait_error(1,3,4) [OF assms x]
  show "fst (main b e argv) = Returns 1"
    and "sigterm_handler (snd (main b e argv))
              = Handler_detach (siga_sa_restart e) (siga_sa_resethand e)"
    and "sigint_handler (snd (main b e argv))
              = Handler_detach (siga_sa_restart e) (siga_sa_resethand e)"
    by simp_all
qed

theorem handlers_restored_on_success_witness:
  "traces example_build example_os [''pwait'', ''1234''] 1234
   \<and> classify 1234 (1234, 0x6057f) = Target_exiting
   \<and> sigterm_handler (snd (main example_build example_os [''pwait'', ''1234''])) = SIG_DFL
   \<and> sigint_handler (snd (main example_build example_os [''pwait'', ''1234''])) = SIG_DFL
   \<and> traces example_build (example_os\<lparr>wait_results := [Returned (1234, 0x57f), Returned (- 1, 0)]\<rparr>)
       [''pwait'', ''1234''] 1234
   \<and> classify 1234 (- 1, 0) = Wait_error
   \<and> fst (main example_build
            (example_os\<lparr>wait_results := [Returned (1234, 0x57f), Returned (- 1, 0)]\<rparr>)
            [''pwait'', ''1234'']) = Returns 1
   \<and> sigterm_handler (snd (main example_build
            (example_os\<lparr>wait_results := [Returned (1234, 0x57f), Returned (- 1, 0)]\<rparr>)
            [''pwait'', ''1234''])) = Handler_detach False False"
proof -
  let ?e = "example_os\<lparr>wait_results := [Returned (1234, 0x57f), Returned (- 1, 0)]\<rparr>"
  have t: "traces example_build example_os [''pwait'', ''1234''] 1234"
    "traces example_build ?e [''pwait'', ''1234''] 1234"
    by (simp_all add: evals)
  have w: "wait_results example_os = map Returned [(1234, 0x57f)] @ Returned (1234, 0x6057f) # []"
    "wait_results ?e = map Returned [(1234, 0x57f)] @ Returned (- 1, 0) # []"
    by (simp_all add: example_os_def)
  have u: "\<forall>r\<in>set [(1234, 0x57f)]. classify 1234 r = Unrelated_stop"
    by (simp add: evals)
  have x: "classify 1234 (1234, 0x6057f) = Target_exiting" "classify 1234 (- 1, 0) = Wait_error"
    by (simp_all add: evals)
  have f: "siga_sa_restart ?e = False" "siga_sa_resethand ?e = False"
    "inherited_sigterm example_os = SIG_DFL" "inherited_sigint example_os = SIG_DFL"
    by (simp_all add: example_os_def)
  show ?thesis
    using handlers_restored_on_success [OF t(1) w(1) u]
      handlers_restored_on_success [OF t(2) w(2) u] t x f
    by simp
qed

text \<open>
  C9 as stated fails: when \<^verbatim>\<open>waitpid\<close> returns \<open>-1\<close> the program ends with the handler
  \<^verbatim>\<open>detach\<close> still installed for both signals, not the inherited default disposition.
\<close>

theorem handlers_not_restored_counterexample:
  "fst (main example_build (example_os\<lparr>wait_results := [Returned (- 1, 0)]\<rparr>)
          [''pwait'', ''1234'']) = Returns 1
   \<and> inherited_sigterm (example_os\<lparr>wait_results := [Returned (- 1, 0)]\<rparr>) = SIG_DFL
   \<and> sigterm_handler (snd (main example_build (example_os\<lparr>wait_results := [Returned (- 1, 0)]\<rparr>)
          [''pwait'', ''1234''])) = Handler_detach False False
   \<and> inherited_sigint (example_os\<lparr>wait_results := [Returned (- 1, 0)]\<rparr>) = SIG_DFL
   \<and> sigint_handler (snd (main example_build (example_os\<lparr>wait_results := [Returned (- 1, 0)]\<rparr>)
          [''pwait'', ''1234''])) = Handler_detach False False"
  by (simp add: main_def main_after_wait_def wait_using_waitpid_Returned sigaction_def
      set_handler_def handler_of_def evals)

text \<open>
  C10, as the code has it. In a run that traces \<open>p\<close> and observes the exit event,
  \<^verbatim>\<open>main\<close> returns 1 and prints no success line both when the query of the event message
  fails and when it succeeds with a message whose conversion to \<^verbatim>\<open>int\<close> is \<open>-1\<close>; in every
  other case \<^verbatim>\<open>main\<close> returns 0 and the success line reports the message converted to
  \<^verbatim>\<open>int\<close>, which is the message itself exactly when the message is below \<open>2\<^sup>3\<^sup>1\<close>.
\<close>

theorem minus_one_sentinel:
  assumes "traces b e argv p"
    and "wait_results e = map Returned rs @ Returned (p, status) # rest"
    and "\<forall>r\<in>set rs. classify p r = Unrelated_stop"
    and "classify p (p, status) = Target_exiting"
  shows "fst (main b e argv)
           = (if geteventmsg_ret e = - 1 \<or> to_int32 (int (eventmsg e)) = - 1
              then Returns 1 else Returns 0)
       \<and> stdout (snd (main b e argv))
           = (if geteventmsg_ret e = - 1 \<or> to_int32 (int (eventmsg e)) = - 1 then []
              else [''Process '' @ show_d p @ '' exited with code ''
                    @ show_d (to_int32 (int (eventmsg e)))])
       \<and> (to_int32 (int (eventmsg e)) = int (eventmsg e) \<longleftrightarrow> eventmsg e < 2 ^ 31)"
proof (intro conjI)
  show "fst (main b e argv)
           = (if geteventmsg_ret e = - 1 \<or> to_int32 (int (eventmsg e)) = - 1
              then Returns 1 else Returns 0)"
    by (rule main_observes_exit(1) [OF assms])
  show "stdout (snd (main b e argv))
           = (if geteventmsg_ret e = - 1 \<or> to_int32 (int (eventmsg e)) = - 1 then []
              else [''Process '' @ show_d p @ '' exited with code ''
                    @ show_d (to_int32 (int (eventmsg e)))])"
    by (rule main_observes_exit(2) [OF assms])
  show "to_int32 (int (eventmsg e)) = int (eventmsg e) \<longleftrightarrow> eventmsg e < 2 ^ 31"
    using to_int32_eq_iff [of "int (eventmsg e)"] by (simp add: zless_nat_eq_int_zless [symmetric])
qed

theorem minus_one_sentinel_witness:
  "traces example_build (example_os\<lparr>geteventmsg_ret := - 1\<rparr>) [''pwait'', ''1234''] 1234
   \<and> to_int32 (int (eventmsg (example_os\<lparr>geteventmsg_ret := - 1\<rparr>))) = 10752
   \<and> fst (main example_build (example_os\<lparr>geteventmsg_ret := - 1\<rparr>) [''pwait'', ''1234''])
       = Returns 1
   \<and> stdout (snd (main example_build (example_os\<lparr>geteventmsg_ret := - 1\<rparr>)
       [''pwait'', ''1234''])) = []
   \<and> traces example_build (example_os\<lparr>eventmsg := 2 ^ 32 - 1\<rparr>) [''pwait'', ''1234''] 1234
   \<and> geteventmsg_ret (example_os\<lparr>eventmsg := 2 ^ 32 - 1\<rparr>) = 0
   \<and> to_int32 (int (eventmsg (example_os\<lparr>eventmsg := 2 ^ 32 - 1\<rparr>))) = - 1
   \<and> fst (main example_build (example_os\<lparr>eventmsg := 2 ^ 32 - 1\<rparr>) [''pwait'', ''1234''])
       = Returns 1
   \<and> stdout (snd (main example_build (example_os\<lparr>eventmsg := 2 ^ 32 - 1\<rparr>)
       [''pwait'', ''1234''])) = []"
proof -
  let ?f = "example_os\<lparr>geteventmsg_ret := - 1\<rparr>"
  let ?m = "example_os\<lparr>eventmsg := 2 ^ 32 - 1\<rparr>"
  have t: "traces example_build ?f [''pwait'', ''1234''] 1234"
    "traces example_build ?m [''pwait'', ''1234''] 1234"
    by (simp_all add: evals)
  have w: "wait_results ?f = map Returned [(1234, 0x57f)] @ Returned (1234, 0x6057f) # []"
    "wait_results ?m = map Returned [(1234, 0x57f)] @ Returned (1234, 0x6057f) # []"
    by (simp_all add: example_os_def)
  have u: "\<forall>r\<in>set [(1234, 0x57f)]. classify 1234 r = Unrelated_stop"
    by (simp add: evals)
  have x: "classify 1234 (1234, 0x6057f) = Target_exiting"
    by (simp add: evals)
  have c: "to_int32 (int (eventmsg ?f)) = 10752" "geteventmsg_ret ?m = 0"
    "to_int32 (int (eventmsg ?m)) = - 1"
    by (simp_all add: example_os_def to_int32_def)
  show ?thesis
    using minus_one_sentinel [OF t(1) w(1) u x] minus_one_sentinel [OF t(2) w(2) u x] t c
    by simp
qed

text \<open>
  C10 as stated fails: the event message \<open>2\<^sup>3\<^sup>2 + 42\<close> does not convert to \<open>-1\<close>, and the
  success line reports 42, not the message.
\<close>

theorem raw_message_counterexample:
  "geteventmsg_ret (example_os\<lparr>eventmsg := 2 ^ 32 + 42\<rparr>) = 0
   \<and> eventmsg (example_os\<lparr>eventmsg := 2 ^ 32 + 42\<rparr>) = 4294967338
   \<and> to_int32 (int (eventmsg (example_os\<lparr>eventmsg := 2 ^ 32 + 42\<rparr>))) = 42
   \<and> fst (main example_build (example_os\<lparr>eventmsg := 2 ^ 32 + 42\<rparr>) [''pwait'', ''1234''])
       = Returns 0
   \<and> stdout (snd (main example_build (example_os\<lparr>eventmsg := 2 ^ 32 + 42\<rparr>)
       [''pwait'', ''1234''])) = [''Process 1234 exited with code 42'']"
  by (simp add: main_def main_after_wait_def wait_using_waitpid_Returned sigaction_def
      set_handler_def handler_of_def get_tracee_exit_status_def PTRACE_EXIT_SIGINFO_STATUS_def
      evals)

text \<open>
  C5. On every sequence of \<^verbatim>\<open>waitpid\<close> results the loop does what the wait step of the
  specification does: it returns \<^verbatim>\<open>TRUE\<close> at the first result that is the exit event of the
  target, \<^verbatim>\<open>FALSE\<close> at the first result that is a wait error (\<open>-1\<close>, or another process
  id), and passes over every other result, calling \<^verbatim>\<open>waitpid\<close> once more for each of them;
  when the results are used up before either, it stays blocked.
\<close>

theorem wait_loop_classifies:
  "fst (wait_using_waitpid (map Returned rs) s) = event_waiter (pid s) rs
   \<and> calls (snd (wait_using_waitpid (map Returned rs) s))
       = calls s @ replicate
           (Suc (length (takeWhile (\<lambda>r. classify (pid s) r = Unrelated_stop) rs)))
           (Waitpid (pid s))"
proof (rule conjI)
  show "fst (wait_using_waitpid (map Returned rs) s) = event_waiter (pid s) rs"
    by (rule wait_using_waitpid_results)
  show "calls (snd (wait_using_waitpid (map Returned rs) s))
       = calls s @ replicate
           (Suc (length (takeWhile (\<lambda>r. classify (pid s) r = Unrelated_stop) rs)))
           (Waitpid (pid s))"
  proof (induction rs arbitrary: s)
    case Nil
    show ?case by (simp add: wait_using_waitpid_Nil)
  next
    case (Cons r rs)
    show ?case
    proof (cases "classify (pid s) r")
      case Unrelated_stop
      then show ?thesis
        using Cons.IH [of "discarded [r] s"]
        by (simp add: wait_using_waitpid_Returned replicate_append_same)
    qed (simp_all add: wait_using_waitpid_Returned)
  qed
qed

theorem wait_loop_classifies_witness:
  "fst (wait_using_waitpid
          (map Returned [(1234, 0x57f), (1234, 0x137f), (1234, 0x6057f), (1234, 0)])
          (initial example_os\<lparr>pid := 1234\<rparr>)) = Returns TRUE
   \<and> calls (snd (wait_using_waitpid
          (map Returned [(1234, 0x57f), (1234, 0x137f), (1234, 0x6057f), (1234, 0)])
          (initial example_os\<lparr>pid := 1234\<rparr>))) = [Waitpid 1234, Waitpid 1234, Waitpid 1234]
   \<and> fst (wait_using_waitpid (map Returned [(1234, 0x57f), (- 1, 0), (1234, 0x6057f)])
          (initial example_os\<lparr>pid := 1234\<rparr>)) = Returns FALSE
   \<and> fst (wait_using_waitpid (map Returned [(1234, 0x57f), (4321, 0x6057f)])
          (initial example_os\<lparr>pid := 1234\<rparr>)) = Returns FALSE
   \<and> fst (wait_using_waitpid (map Returned [(1234, 0x57f), (1234, 0x137f)])
          (initial example_os\<lparr>pid := 1234\<rparr>)) = Blocked"
  using wait_loop_classifies [of "[(1234, 0x57f), (1234, 0x137f), (1234, 0x6057f), (1234, 0)]"
      "initial example_os\<lparr>pid := 1234\<rparr>"]
    wait_loop_classifies [of "[(1234, 0x57f), (- 1, 0), (1234, 0x6057f)]"
      "initial example_os\<lparr>pid := 1234\<rparr>"]
    wait_loop_classifies [of "[(1234, 0x57f), (4321, 0x6057f)]"
      "initial example_os\<lparr>pid := 1234\<rparr>"]
    wait_loop_classifies [of "[(1234, 0x57f), (1234, 0x137f)]"
      "initial example_os\<lparr>pid := 1234\<rparr>"]
  by (simp add: classify_def WIFSTOPPED_def SIGTRAP_def PTRACE_EVENT_EXIT_def)



text \<open>
  C7, as the code has it. The negotiation returns \<^verbatim>\<open>TRUE\<close> exactly when the first query
  shows the capability in the effective set, or the re-check after raising shows it and
  releasing the capability structure succeeds. Its result is \<^verbatim>\<open>TRUE\<close> or \<^verbatim>\<open>FALSE\<close>. Its
  libcap calls, the releases apart, follow the order: supported, get, effective, permitted,
  raise, set, effective; an immediate success stops after the first three, and a run that
  reaches the re-check makes all seven and then the release.
\<close>

theorem negotiation_outcome:
  "(fst (prepare_capabilities b e s) = TRUE
      \<longleftrightarrow> immediate_success b e \<or> recheck_shows_set b e \<and> cap_free_ret e \<noteq> - 1)
   \<and> (fst (prepare_capabilities b e s) = TRUE \<or> fst (prepare_capabilities b e s) = FALSE)
   \<and> (\<exists>cs. calls (snd (prepare_capabilities b e s)) = calls s @ cs
          \<and> prefix (filter (\<lambda>c. c \<noteq> Cap_free) cs) negotiation_order)
   \<and> (immediate_success b e \<longrightarrow>
        calls (snd (prepare_capabilities b e s)) = calls s @ take 3 negotiation_order)
   \<and> (reaches_recheck b e \<longrightarrow>
        calls (snd (prepare_capabilities b e s)) = calls s @ negotiation_order @ [Cap_free])"
proof (intro conjI)
  show "fst (prepare_capabilities b e s) = TRUE
      \<longleftrightarrow> immediate_success b e \<or> recheck_shows_set b e \<and> cap_free_ret e \<noteq> - 1"
    by (auto simp: prepare_capabilities_def Let_def case_prod_beta TRUE_def FALSE_def
        immediate_success_def recheck_shows_set_def reaches_recheck_def
        reaches_first_check_def)
  show "fst (prepare_capabilities b e s) = TRUE \<or> fst (prepare_capabilities b e s) = FALSE"
    by (rule prepare_capabilities_result)
  show "\<exists>cs. calls (snd (prepare_capabilities b e s)) = calls s @ cs
          \<and> prefix (filter (\<lambda>c. c \<noteq> Cap_free) cs) negotiation_order"
    by (rule prepare_capabilities_calls)
  show "immediate_success b e \<longrightarrow>
        calls (snd (prepare_capabilities b e s)) = calls s @ take 3 negotiation_order"
    by (simp add: prepare_capabilities_def Let_def case_prod_beta negotiation_order_def
        immediate_success_def reaches_first_check_def)
  show "reaches_recheck b e \<longrightarrow>
        calls (snd (prepare_capabilities b e s)) = calls s @ negotiation_order @ [Cap_free]"
    by (simp add: prepare_capabilities_def Let_def case_prod_beta negotiation_order_def
        reaches_recheck_def reaches_first_check_def)
qed

theorem negotiation_outcome_witness:
  "immediate_success example_build example_os
   \<and> fst (prepare_capabilities example_build example_os (initial example_os)) = TRUE
   \<and> calls (snd (prepare_capabilities example_build example_os (initial example_os)))
       = [Cap_is_supported, Cap_get_proc, Cap_get_flag CAP_EFFECTIVE]
   \<and> reaches_recheck example_build raising_os
   \<and> fst (prepare_capabilities example_build raising_os (initial raising_os)) = TRUE
   \<and> calls (snd (prepare_capabilities example_build raising_os (initial raising_os)))
       = [Cap_is_supported, Cap_get_proc, Cap_get_flag CAP_EFFECTIVE,
          Cap_get_flag CAP_PERMITTED, Cap_set_flag, Cap_set_proc, Cap_get_flag CAP_EFFECTIVE,
          Cap_free]"
proof -
  have i: "immediate_success example_build example_os"
    by (simp add: immediate_success_def reaches_first_check_def example_os_def
        example_build_def)
  have r: "reaches_recheck example_build raising_os"
    "recheck_shows_set example_build raising_os" "cap_free_ret raising_os \<noteq> - 1"
    by (simp_all add: recheck_shows_set_def reaches_recheck_def reaches_first_check_def
        raising_os_def example_os_def example_build_def)
  show ?thesis
    using negotiation_outcome [of example_build example_os "initial example_os"]
      negotiation_outcome [of example_build raising_os "initial raising_os"] i r
    by (simp add: negotiation_order_def)
qed

text \<open>
  C7 as stated fails: when the re-check shows the capability set and
  \<^verbatim>\<open>cap_free\<close> fails, the negotiation returns \<^verbatim>\<open>FALSE\<close>.
\<close>

theorem release_failure_counterexample:
  "recheck_shows_set example_build (raising_os\<lparr>cap_free_ret := - 1\<rparr>)
   \<and> fst (prepare_capabilities example_build (raising_os\<lparr>cap_free_ret := - 1\<rparr>)
            (initial (raising_os\<lparr>cap_free_ret := - 1\<rparr>))) = FALSE"
  by (simp add: recheck_shows_set_def reaches_recheck_def reaches_first_check_def
      raising_os_def evals cap_free_safe_def)

end
